theory Spec2Isabelle
  imports Main
begin

section \<open>The student API of server.js\<close>

text \<open>
  server.js registers five routes over one table, \<^verbatim>\<open>students\<close>, and one route,
  \<^verbatim>\<open>/say\<close>, that forwards a keyword to a remote function. Every handler is a
  straight line: validate, open a \<^verbatim>\<open>try\<close>, take a connection from the pool,
  run one statement, release, respond; the \<^verbatim>\<open>catch\<close> responds with status 500.
  The handlers modelled here are those of the revision that validates its requests
  (the routes registered with express-validator chains).

  The handlers are written against four packages whose code is not part of the
  repository: express-validator, sanitize-html, mariadb and axios. Their functions
  are parameters of the model, so every theorem holds for whatever these packages
  compute. The repository does not say which version of the mariadb connector it runs
  on, and the versions differ in what they hand back as \<^verbatim>\<open>insertId\<close>; that too
  is a parameter.
\<close>

subsection \<open>Values and requests\<close>

text \<open>
  \<open>'v\<close> is the type of the values Express hands to a handler (a path segment, a
  field of the JSON body) and of the values bound into a statement and kept in a
  column. The functions of the packages:
  \<^item> \<open>isInt\<close>, \<open>isEmail\<close>, \<open>isString\<close>, \<open>notEmpty\<close>: the express-validator checks
    of the chains;
  \<^item> \<open>sanitizeHtml\<close>: the function exported by sanitize-html;
  \<^item> \<open>sql_id\<close>: the integer the store reads from a value bound to
    \<^verbatim>\<open>WHERE id = ?\<close>, if it reads one;
  \<^item> \<open>age_column\<close>: the value the integer column \<^verbatim>\<open>age\<close> keeps for a value
    bound to it;
  \<^item> \<open>insertIdAsNumber\<close>: whether the connector hands the generated id of an insert
    to the handler as a JavaScript Number (connector 2.x, or 3.x with its option of
    this name set) or as a BigInt (connector 3.x as \<^verbatim>\<open>createPool\<close> is called here,
    without that option);
  \<^item> \<open>axios_get\<close>: the data of the response to \<^verbatim>\<open>axios.get(url)\<close>, or \<open>None\<close>
    when the call rejects.
\<close>

record 'v deps =
  isInt :: "'v \<Rightarrow> bool"
  isEmail :: "'v \<Rightarrow> bool"
  isString :: "'v \<Rightarrow> bool"
  notEmpty :: "'v \<Rightarrow> bool"
  sanitizeHtml :: "'v \<Rightarrow> 'v"
  sql_id :: "'v \<Rightarrow> int option"
  age_column :: "'v \<Rightarrow> 'v"
  insertIdAsNumber :: bool
  axios_get :: "string \<Rightarrow> 'v option"

text \<open>
  The parts of \<^verbatim>\<open>req\<close> the handlers read: \<^verbatim>\<open>req.params.id\<close>,
  \<^verbatim>\<open>req.body.name\<close>, \<^verbatim>\<open>req.body.email\<close>, \<^verbatim>\<open>req.body.age\<close> and
  \<^verbatim>\<open>req.query.keyword\<close>. The keyword is a string, or \<open>None\<close> when the query has
  no such parameter (\<^verbatim>\<open>undefined\<close>).
\<close>

record 'v request =
  params_id :: 'v
  body_name :: 'v
  body_email :: 'v
  body_age :: 'v
  query_keyword :: "string option"

subsection \<open>The table\<close>

text \<open>
  Modelled from the spec: the schema of the table is not in the repository. The spec
  gives \<^verbatim>\<open>students(id PK autogenerated, name, email, age)\<close>: a row has an integer
  id that the store generates on insert, and the three columns an insert binds. The
  store is the list of rows with the counter the next id is taken from.
\<close>

record 'v student =
  student_id :: int
  name :: 'v
  email :: 'v
  age :: 'v

record 'v db =
  students :: "'v student list"
  auto_increment :: int

text \<open>The five statements the handlers issue, with their bound values in order.\<close>

datatype 'v statement =
    SelectAll
  | SelectById 'v
  | InsertStudent 'v 'v 'v
  | UpdateEmail 'v 'v
  | DeleteById 'v

text \<open>
  An integer as the connector hands it to JavaScript: a Number or a BigInt.
\<close>

datatype js_integer = Number int | BigInt int

text \<open>
  What \<^verbatim>\<open>conn.query\<close> resolves to: the rows of a select (\<^verbatim>\<open>rows\<close>), and the
  \<^verbatim>\<open>insertId\<close> of an insert.
\<close>

record 'v result =
  rows :: "'v student list"
  insertId :: js_integer

definition as_js_integer :: "'v deps \<Rightarrow> int \<Rightarrow> js_integer" where
  "as_js_integer L n = (if insertIdAsNumber L then Number n else BigInt n)"

text \<open>
  Modelled from the spec: which rows \<^verbatim>\<open>WHERE id = ?\<close> selects. The store compares
  the id column, an integer, with the integer it reads from the bound value.
\<close>

definition matches :: "'v deps \<Rightarrow> 'v \<Rightarrow> 'v student \<Rightarrow> bool" where
  "matches L v r = (sql_id L v = Some (student_id r))"

text \<open>
  Modelled from the spec: the statements' meaning on the table. A select reads, an
  insert appends a row under the next generated id (the spec types the age column as
  an integer, so the row holds what that column keeps of the bound age), an update
  sets the email column of the rows whose id matches, a delete removes them.
\<close>

fun execute :: "'v deps \<Rightarrow> 'v statement \<Rightarrow> 'v db \<Rightarrow> 'v result \<times> 'v db" where
  "execute L SelectAll d = (\<lparr>rows = students d, insertId = as_js_integer L 0\<rparr>, d)"
| "execute L (SelectById i) d =
     (\<lparr>rows = filter (matches L i) (students d), insertId = as_js_integer L 0\<rparr>, d)"
| "execute L (InsertStudent n e a) d =
     (\<lparr>rows = [], insertId = as_js_integer L (auto_increment d)\<rparr>,
      \<lparr>students = students d @
         [\<lparr>student_id = auto_increment d, name = n, email = e, age = age_column L a\<rparr>],
       auto_increment = auto_increment d + 1\<rparr>)"
| "execute L (UpdateEmail e i) d =
     (\<lparr>rows = [], insertId = as_js_integer L 0\<rparr>,
      d\<lparr>students := map (\<lambda>r. if matches L i r then r\<lparr>email := e\<rparr> else r) (students d)\<rparr>)"
| "execute L (DeleteById i) d =
     (\<lparr>rows = [], insertId = as_js_integer L 0\<rparr>,
      d\<lparr>students := filter (\<lambda>r. \<not> matches L i r) (students d)\<rparr>)"

text \<open>
  Modelled from the spec: the id is a primary key that the store generates. Generated
  ids are fresh when every id in the table is below the counter.
\<close>

definition wf_db :: "'v db \<Rightarrow> bool" where
  "wf_db d = list_all (\<lambda>r. student_id r < auto_increment d) (students d)"

subsection \<open>Responses and what a handler does\<close>

datatype location = Params | Body

text \<open>An entry of \<^verbatim>\<open>errors.array()\<close>: the rejected value, the message, the field.\<close>

record 'v verror =
  rejected :: 'v
  msg :: string
  param :: string
  location :: location

text \<open>
  The JSON documents the handlers send, and the status they send them with
  (\<^verbatim>\<open>res.json\<close> alone sends 200). \<^verbatim>\<open>res.json\<close> serialises its document with
  \<^verbatim>\<open>JSON.stringify\<close> before it sends anything, and \<^verbatim>\<open>JSON.stringify\<close> throws a
  TypeError on a BigInt. The one value in these documents that can be a BigInt is the
  \<^verbatim>\<open>insertId\<close> of the create operation; the columns of a row, the messages, the
  validation errors and the remote data are values JSON carries.
\<close>

datatype 'v json =
    Rows "'v student list"
  | Row "'v student"
  | Message string
  | Created string int
  | ErrorMsg string
  | Errors "'v verror list"
  | Data 'v

record 'v response =
  status :: nat
  payload :: "'v json"

text \<open>
  The calls a handler makes, in order: \<open>GetConnection\<close> when
  \<^verbatim>\<open>pool.getConnection()\<close> hands out a connection, \<open>GetConnectionRejected\<close> when
  it rejects, \<open>Query\<close> for \<^verbatim>\<open>conn.query\<close>, \<open>Release\<close> for
  \<^verbatim>\<open>conn.release()\<close>, \<open>AxiosGet\<close> for \<^verbatim>\<open>axios.get\<close>, \<open>Respond\<close> for a
  \<^verbatim>\<open>res.json\<close> that sends its document, \<open>RespondThrows\<close> for a
  \<^verbatim>\<open>res.status(s).json\<close> that throws with the given message and sends nothing.
\<close>

datatype 'v event =
    GetConnection
  | GetConnectionRejected
  | Query "'v statement"
  | Release
  | AxiosGet string
  | Respond "'v response"
  | RespondThrows nat string

record 'v outcome =
  trace :: "'v event list"
  table :: "'v db"

text \<open>
  What the store does during one request: nothing goes wrong, or
  \<^verbatim>\<open>pool.getConnection()\<close> rejects, or \<^verbatim>\<open>conn.query\<close> rejects; the string is
  \<^verbatim>\<open>err.message\<close>. A statement that is rejected leaves the table as it was.
\<close>

datatype fault = NoFault | GetConnectionFails string | QueryFails string

text \<open>
  The three lines every \<^verbatim>\<open>try\<close> block shares:
  \<^verbatim>\<open>const conn = await pool.getConnection();\<close>
  \<^verbatim>\<open>const result = await conn.query(statement, values);\<close>
  \<^verbatim>\<open>conn.release();\<close>
  A rejected promise throws at its \<^verbatim>\<open>await\<close>, and the lines after it do not run:
  \<open>Inl\<close> carries the message to the \<^verbatim>\<open>catch\<close>.
\<close>

definition query_and_release ::
  "'v deps \<Rightarrow> fault \<Rightarrow> 'v statement \<Rightarrow> 'v db \<Rightarrow> 'v event list \<times> (string + 'v result) \<times> 'v db" where
  "query_and_release L f s d =
     (case f of
        GetConnectionFails m \<Rightarrow> ([GetConnectionRejected], Inl m, d)
      | QueryFails m \<Rightarrow> ([GetConnection, Query s], Inl m, d)
      | NoFault \<Rightarrow>
          (case execute L s d of (r, d') \<Rightarrow> ([GetConnection, Query s, Release], Inr r, d')))"

text \<open>\<^verbatim>\<open>res.status(500).json({ error: err.message })\<close>, the body of every \<^verbatim>\<open>catch\<close>.\<close>

definition server_error :: "string \<Rightarrow> 'v event" where
  "server_error m = Respond \<lparr>status = 500, payload = ErrorMsg m\<rparr>"

subsection \<open>Validation\<close>

text \<open>
  A chain \<^verbatim>\<open>param('id').isInt().withMessage(m)\<close> is a field with its checks; every
  check that fails adds an entry to the result, with the message given to it or the
  package's \<^verbatim>\<open>Invalid value\<close>.
\<close>

definition run_chain ::
  "location \<Rightarrow> string \<Rightarrow> (('v \<Rightarrow> bool) \<times> string) list \<Rightarrow> 'v \<Rightarrow> 'v verror list" where
  "run_chain loc field checks v =
     map (\<lambda>(ok, m). \<lparr>rejected = v, msg = m, param = field, location = loc\<rparr>)
       (filter (\<lambda>(ok, m). \<not> ok v) checks)"

text \<open>\<^verbatim>\<open>param('id').isInt().withMessage('Student ID must be an integer')\<close>\<close>

definition check_id :: "'v deps \<Rightarrow> 'v request \<Rightarrow> 'v verror list" where
  "check_id L req =
     run_chain Params ''id'' [(isInt L, ''Student ID must be an integer'')] (params_id req)"

text \<open>\<^verbatim>\<open>body('name').isString().notEmpty().withMessage('Name is required')\<close>\<close>

definition check_name :: "'v deps \<Rightarrow> 'v request \<Rightarrow> 'v verror list" where
  "check_name L req =
     run_chain Body ''name''
       [(isString L, ''Invalid value''), (notEmpty L, ''Name is required'')] (body_name req)"

text \<open>\<^verbatim>\<open>body('email').isEmail().withMessage('Invalid email')\<close>\<close>

definition check_email :: "'v deps \<Rightarrow> 'v request \<Rightarrow> 'v verror list" where
  "check_email L req = run_chain Body ''email'' [(isEmail L, ''Invalid email'')] (body_email req)"

text \<open>\<^verbatim>\<open>body('age').isInt().withMessage('Age must be an integer')\<close>\<close>

definition check_age :: "'v deps \<Rightarrow> 'v request \<Rightarrow> 'v verror list" where
  "check_age L req = run_chain Body ''age'' [(isInt L, ''Age must be an integer'')] (body_age req)"

text \<open>\<^verbatim>\<open>return res.status(400).json({ errors: errors.array() })\<close>\<close>

definition bad_request :: "'v verror list \<Rightarrow> 'v db \<Rightarrow> 'v outcome" where
  "bad_request errors d =
     \<lparr>trace = [Respond \<lparr>status = 400, payload = Errors errors\<rparr>], table = d\<rparr>"

subsection \<open>The handlers\<close>

text \<open>\<^verbatim>\<open>app.get('/students', ...)\<close>\<close>

definition list_students :: "'v deps \<Rightarrow> fault \<Rightarrow> 'v request \<Rightarrow> 'v db \<Rightarrow> 'v outcome" where
  "list_students L f req d =
     (case query_and_release L f SelectAll d of
        (calls, Inr result, d') \<Rightarrow>
          \<lparr>trace = calls @ [Respond \<lparr>status = 200, payload = Rows (rows result)\<rparr>], table = d'\<rparr>
      | (calls, Inl m, d') \<Rightarrow> \<lparr>trace = calls @ [server_error m], table = d'\<rparr>)"

text \<open>\<^verbatim>\<open>app.get('/students/:id', [param('id').isInt()...], ...)\<close>\<close>

definition get_student :: "'v deps \<Rightarrow> fault \<Rightarrow> 'v request \<Rightarrow> 'v db \<Rightarrow> 'v outcome" where
  "get_student L f req d =
     (let errors = check_id L req in
      if errors \<noteq> [] then bad_request errors d
      else
        (case query_and_release L f (SelectById (params_id req)) d of
           (calls, Inr result, d') \<Rightarrow>
             \<lparr>trace = calls @
                [Respond \<lparr>status = 200,
                   payload = (case rows result of
                                [] \<Rightarrow> Message ''Student not found''
                              | r # _ \<Rightarrow> Row r)\<rparr>],
              table = d'\<rparr>
         | (calls, Inl m, d') \<Rightarrow> \<lparr>trace = calls @ [server_error m], table = d'\<rparr>))"

text \<open>The message of the TypeError that \<^verbatim>\<open>JSON.stringify\<close> throws on a BigInt.\<close>

definition cannot_serialize :: string where
  "cannot_serialize = ''Do not know how to serialize a BigInt''"

text \<open>
  \<^verbatim>\<open>app.post('/students', [body('name')..., body('email')..., body('age')...], ...)\<close>
  The response \<^verbatim>\<open>res.status(201).json({ message: ..., studentId: result.insertId })\<close>
  is the last line of the \<^verbatim>\<open>try\<close>, after the release: when the id is a BigInt it
  throws, and the \<^verbatim>\<open>catch\<close> answers 500 with the message of the TypeError.
\<close>

definition create_student :: "'v deps \<Rightarrow> fault \<Rightarrow> 'v request \<Rightarrow> 'v db \<Rightarrow> 'v outcome" where
  "create_student L f req d =
     (let errors = check_name L req @ check_email L req @ check_age L req in
      if errors \<noteq> [] then bad_request errors d
      else
        (let sanitizedEmail = sanitizeHtml L (body_email req) in
         case query_and_release L f
                (InsertStudent (sanitizeHtml L (body_name req)) sanitizedEmail (body_age req)) d of
           (calls, Inr result, d') \<Rightarrow>
             (case insertId result of
                Number n \<Rightarrow>
                  \<lparr>trace = calls @
                     [Respond \<lparr>status = 201,
                        payload = Created ''Student added successfully'' n\<rparr>],
                   table = d'\<rparr>
              | BigInt n \<Rightarrow>
                  \<lparr>trace = calls @
                     [RespondThrows 201 cannot_serialize, server_error cannot_serialize],
                   table = d'\<rparr>)
         | (calls, Inl m, d') \<Rightarrow> \<lparr>trace = calls @ [server_error m], table = d'\<rparr>))"

text \<open>\<^verbatim>\<open>app.patch('/students/:id', [param('id')..., body('email')...], ...)\<close>\<close>

definition update_student :: "'v deps \<Rightarrow> fault \<Rightarrow> 'v request \<Rightarrow> 'v db \<Rightarrow> 'v outcome" where
  "update_student L f req d =
     (let errors = check_id L req @ check_email L req in
      if errors \<noteq> [] then bad_request errors d
      else
        (let sanitizedEmail = sanitizeHtml L (body_email req) in
         case query_and_release L f (UpdateEmail sanitizedEmail (params_id req)) d of
           (calls, Inr result, d') \<Rightarrow>
             \<lparr>trace = calls @
                [Respond \<lparr>status = 200, payload = Message ''Student email updated successfully''\<rparr>],
              table = d'\<rparr>
         | (calls, Inl m, d') \<Rightarrow> \<lparr>trace = calls @ [server_error m], table = d'\<rparr>))"

text \<open>\<^verbatim>\<open>app.delete('/students/:id', [param('id')...], ...)\<close>\<close>

definition delete_student :: "'v deps \<Rightarrow> fault \<Rightarrow> 'v request \<Rightarrow> 'v db \<Rightarrow> 'v outcome" where
  "delete_student L f req d =
     (let errors = check_id L req in
      if errors \<noteq> [] then bad_request errors d
      else
        (case query_and_release L f (DeleteById (params_id req)) d of
           (calls, Inr result, d') \<Rightarrow>
             \<lparr>trace = calls @
                [Respond \<lparr>status = 200, payload = Message ''Student deleted successfully''\<rparr>],
              table = d'\<rparr>
         | (calls, Inl m, d') \<Rightarrow> \<lparr>trace = calls @ [server_error m], table = d'\<rparr>))"

text \<open>
  \<^verbatim>\<open>req.query.keyword || "nothing"\<close>: the right operand stands in for a left
  operand that is \<^verbatim>\<open>undefined\<close> or the empty string, the two falsy values a
  keyword can be.
\<close>

definition keyword_or_nothing :: "string option \<Rightarrow> string" where
  "keyword_or_nothing k =
     (case k of None \<Rightarrow> ''nothing'' | Some s \<Rightarrow> if s = [] then ''nothing'' else s)"

definition azureFunctionUrl :: "string \<Rightarrow> string" where
  "azureFunctionUrl keyword =
     ''https://shashankhfunction123.azurewebsites.net/api/Function?keyword='' @ keyword"

text \<open>\<^verbatim>\<open>app.get('/say', ...)\<close>\<close>

definition say :: "'v deps \<Rightarrow> fault \<Rightarrow> 'v request \<Rightarrow> 'v db \<Rightarrow> 'v outcome" where
  "say L f req d =
     (let keyword = keyword_or_nothing (query_keyword req);
          url = azureFunctionUrl keyword in
      case axios_get L url of
        Some data \<Rightarrow>
          \<lparr>trace = [AxiosGet url, Respond \<lparr>status = 200, payload = Data data\<rparr>], table = d\<rparr>
      | None \<Rightarrow>
          \<lparr>trace = [AxiosGet url,
                    Respond \<lparr>status = 500, payload = ErrorMsg ''Error calling Azure Function''\<rparr>],
           table = d\<rparr>)"

subsection \<open>Connections held when the response is sent\<close>

text \<open>
  \<open>held_at_respond n calls\<close> is the number of connections out of the pool at the
  first \<open>Respond\<close> of \<open>calls\<close>, starting from \<open>n\<close>; \<open>None\<close> when nothing is sent.
  A release with no connection out leaves the count at zero.
\<close>

fun held_at_respond :: "nat \<Rightarrow> 'v event list \<Rightarrow> nat option" where
  "held_at_respond n [] = None"
| "held_at_respond n (Respond r # es) = Some n"
| "held_at_respond n (GetConnection # es) = held_at_respond (Suc n) es"
| "held_at_respond n (Release # es) = held_at_respond (n - 1) es"
| "held_at_respond n (GetConnectionRejected # es) = held_at_respond n es"
| "held_at_respond n (Query s # es) = held_at_respond n es"
| "held_at_respond n (AxiosGet u # es) = held_at_respond n es"
| "held_at_respond n (RespondThrows s m # es) = held_at_respond n es"

subsection \<open>A library to run the handlers on\<close>

text \<open>
  Concrete requests need concrete packages. \<open>plain\<close> is a small stand-in over numbers
  and strings: a number is an integer, a string with an \<^verbatim>\<open>@\<close> is an email,
  sanitizing drops the angle brackets of a string, the store reads a number as an id
  and keeps a bound age as it is, the connector hands generated ids over as Numbers,
  and the remote function answers every call with the URL it was called with.
  \<open>plain_bigint\<close> is the same with a connector that hands them over as BigInts.
\<close>

datatype jv = Num int | Str string

definition plain :: "jv deps" where
  "plain =
     \<lparr>isInt = (\<lambda>v. case v of Num _ \<Rightarrow> True | Str _ \<Rightarrow> False),
      isEmail = (\<lambda>v. case v of Num _ \<Rightarrow> False | Str s \<Rightarrow> CHR ''@'' \<in> set s),
      isString = (\<lambda>v. case v of Num _ \<Rightarrow> False | Str _ \<Rightarrow> True),
      notEmpty = (\<lambda>v. v \<noteq> Str []),
      sanitizeHtml = (\<lambda>v. case v of Num n \<Rightarrow> Num n
                         | Str s \<Rightarrow> Str (filter (\<lambda>c. c \<noteq> CHR ''<'' \<and> c \<noteq> CHR ''>'') s)),
      sql_id = (\<lambda>v. case v of Num n \<Rightarrow> Some n | Str _ \<Rightarrow> None),
      age_column = (\<lambda>v. v),
      insertIdAsNumber = True,
      axios_get = (\<lambda>url. Some (Str url))\<rparr>"

definition plain_bigint :: "jv deps" where
  "plain_bigint = plain\<lparr>insertIdAsNumber := False\<rparr>"

definition ann :: "jv student" where
  "ann = \<lparr>student_id = 1, name = Str ''Ann'', email = Str ''ann@example.com'', age = Num 30\<rparr>"

definition bob :: "jv student" where
  "bob = \<lparr>student_id = 2, name = Str ''Bob'', email = Str ''bob@example.com'', age = Num 41\<rparr>"

definition two_students :: "jv db" where
  "two_students = \<lparr>students = [ann, bob], auto_increment = 3\<rparr>"

definition request :: "jv \<Rightarrow> jv \<Rightarrow> jv \<Rightarrow> jv \<Rightarrow> string option \<Rightarrow> jv request" where
  "request i n e a k =
     \<lparr>params_id = i, body_name = n, body_email = e, body_age = a, query_keyword = k\<rparr>"

text \<open>
  Requests used below: a create with all three fields wrong, a valid one, and an update
  of the second student's email.
\<close>

definition create_invalid :: "jv request" where
  "create_invalid = request (Num 0) (Str []) (Str ''not-an-email'') (Str ''x'') None"

definition create_cy :: "jv request" where
  "create_cy = request (Num 0) (Str ''Cy'') (Str ''cy@example.com'') (Num 25) None"

definition update_bob :: "jv request" where
  "update_bob = request (Num 2) (Num 0) (Str ''<bob@new.org>'') (Num 0) None"

section \<open>Properties\<close>

subsection \<open>Reads leave the table alone\<close>

lemma query_and_release_select_all:
  "snd (snd (query_and_release L f SelectAll d)) = d"
  by (cases f) (simp_all add: query_and_release_def)

lemma query_and_release_select_by_id:
  "snd (snd (query_and_release L f (SelectById i) d)) = d"
  by (cases f) (simp_all add: query_and_release_def)

text \<open>
  C10. The two read operations, list and get-by-id, leave the students table as it
  was: for every table, every request and whatever the store does during the request,
  the table after the operation is the table before it.
\<close>

theorem reads_leave_table_unchanged:
  "table (list_students L f req d) = d \<and> table (get_student L f req d) = d"
proof
  show "table (list_students L f req d) = d"
    using query_and_release_select_all [of L f d]
    by (auto simp: list_students_def split: prod.splits sum.splits)
next
  show "table (get_student L f req d) = d"
    using query_and_release_select_by_id [of L f "params_id req" d]
    by (auto simp: get_student_def bad_request_def Let_def split: prod.splits sum.splits)
qed

theorem reads_leave_table_unchanged_witness:
  "table (list_students plain NoFault (request (Num 1) (Num 0) (Num 0) (Num 0) None) two_students)
     = two_students \<and>
   table (get_student plain NoFault (request (Num 1) (Num 0) (Num 0) (Num 0) None) two_students)
     = two_students"
  using reads_leave_table_unchanged
    [of plain NoFault "request (Num 1) (Num 0) (Num 0) (Num 0) None" two_students]
  by simp

subsection \<open>The connection when the query fails\<close>

lemma query_and_release_no_fault:
  "query_and_release L NoFault s d =
     ([GetConnection, Query s, Release], Inr (fst (execute L s d)), snd (execute L s d))"
  by (simp add: query_and_release_def split: prod.splits)

lemma query_and_release_query_fails:
  "query_and_release L (QueryFails m) s d = ([GetConnection, Query s], Inl m, d)"
  by (simp add: query_and_release_def)

lemma query_and_release_get_connection_fails:
  "query_and_release L (GetConnectionFails m) s d = ([GetConnectionRejected], Inl m, d)"
  by (simp add: query_and_release_def)

text \<open>
  When the statement runs, each of the five handlers has given its connection back
  by the time it responds.
\<close>

lemma released_when_query_succeeds:
  "held_at_respond 0 (trace (list_students L NoFault req d)) = Some 0"
  "held_at_respond 0 (trace (get_student L NoFault req d)) = Some 0"
  "held_at_respond 0 (trace (create_student L NoFault req d)) = Some 0"
  "held_at_respond 0 (trace (update_student L NoFault req d)) = Some 0"
  "held_at_respond 0 (trace (delete_student L NoFault req d)) = Some 0"
  by (simp_all add: list_students_def get_student_def create_student_def update_student_def
      delete_student_def bad_request_def query_and_release_no_fault as_js_integer_def
      server_error_def Let_def)

text \<open>
  C1 says that a handler that has taken a connection from the pool releases it before
  it responds, on every exit path, the path where the query fails included. In each
  handler \<^verbatim>\<open>conn.release()\<close> is the line after \<^verbatim>\<open>await conn.query(...)\<close>, inside
  the \<^verbatim>\<open>try\<close>; a query that rejects jumps over it to the \<^verbatim>\<open>catch\<close>, which
  responds and releases nothing. For the list operation: when the query is rejected
  with message \<open>m\<close>, the calls are getConnection, query, respond with status 500, and
  one connection is still out of the pool when the response is sent.
\<close>

theorem list_students_keeps_connection_when_query_fails:
  "trace (list_students L (QueryFails m) req d) =
     [GetConnection, Query SelectAll, Respond \<lparr>status = 500, payload = ErrorMsg m\<rparr>] \<and>
   held_at_respond 0 (trace (list_students L (QueryFails m) req d)) = Some 1"
  by (simp add: list_students_def query_and_release_query_fails server_error_def)

text \<open>The other four handlers do the same once their request has passed validation.\<close>

lemma get_student_keeps_connection_when_query_fails:
  "check_id L req = [] \<Longrightarrow>
   held_at_respond 0 (trace (get_student L (QueryFails m) req d)) = Some 1"
  by (simp add: get_student_def query_and_release_query_fails server_error_def)

lemma create_student_keeps_connection_when_query_fails:
  "check_name L req @ check_email L req @ check_age L req = [] \<Longrightarrow>
   held_at_respond 0 (trace (create_student L (QueryFails m) req d)) = Some 1"
  by (simp add: create_student_def query_and_release_query_fails server_error_def)

lemma update_student_keeps_connection_when_query_fails:
  "check_id L req @ check_email L req = [] \<Longrightarrow>
   held_at_respond 0 (trace (update_student L (QueryFails m) req d)) = Some 1"
  by (simp add: update_student_def query_and_release_query_fails server_error_def)

lemma delete_student_keeps_connection_when_query_fails:
  "check_id L req = [] \<Longrightarrow>
   held_at_respond 0 (trace (delete_student L (QueryFails m) req d)) = Some 1"
  by (simp add: delete_student_def query_and_release_query_fails server_error_def)

subsection \<open>Validation comes before the store\<close>

lemma check_id_rejects:
  "\<not> isInt L (params_id req) \<Longrightarrow>
   check_id L req =
     [\<lparr>rejected = params_id req, msg = ''Student ID must be an integer'', param = ''id'',
       location = Params\<rparr>]"
  by (simp add: check_id_def run_chain_def)

lemma check_id_accepts: "isInt L (params_id req) \<Longrightarrow> check_id L req = []"
  by (simp add: check_id_def run_chain_def)

text \<open>
  C3. When the id of the path is not an integer, each of get-by-id, update-email and
  delete answers with status 400 and the list of validation errors, one of which
  names the field \<open>id\<close> of the path; that response is the only call the handler
  makes (no connection is asked for, no statement is issued), and the table is as it
  was. This holds whatever the store would have done.
\<close>

theorem non_integer_id_is_rejected_before_storage:
  assumes "\<not> isInt L (params_id req)"
  shows "(\<exists>errors.
           trace (get_student L f req d) = [Respond \<lparr>status = 400, payload = Errors errors\<rparr>] \<and>
           (\<exists>e \<in> set errors. param e = ''id'' \<and> location e = Params) \<and>
           table (get_student L f req d) = d) \<and>
         (\<exists>errors.
           trace (update_student L f req d) = [Respond \<lparr>status = 400, payload = Errors errors\<rparr>] \<and>
           (\<exists>e \<in> set errors. param e = ''id'' \<and> location e = Params) \<and>
           table (update_student L f req d) = d) \<and>
         (\<exists>errors.
           trace (delete_student L f req d) = [Respond \<lparr>status = 400, payload = Errors errors\<rparr>] \<and>
           (\<exists>e \<in> set errors. param e = ''id'' \<and> location e = Params) \<and>
           table (delete_student L f req d) = d)"
  using assms
  by (simp add: get_student_def update_student_def delete_student_def bad_request_def
      check_id_rejects)

theorem non_integer_id_is_rejected_before_storage_witness:
  "\<not> isInt plain (params_id (request (Str ''abc'') (Num 0) (Str ''a@b.c'') (Num 0) None)) \<and>
   (\<exists>errors.
      trace (get_student plain NoFault
               (request (Str ''abc'') (Num 0) (Str ''a@b.c'') (Num 0) None) two_students) =
        [Respond \<lparr>status = 400, payload = Errors errors\<rparr>] \<and>
      (\<exists>e \<in> set errors. param e = ''id'' \<and> location e = Params) \<and>
      table (get_student plain NoFault
               (request (Str ''abc'') (Num 0) (Str ''a@b.c'') (Num 0) None) two_students) =
        two_students)"
proof -
  have h: "\<not> isInt plain (params_id (request (Str ''abc'') (Num 0) (Str ''a@b.c'') (Num 0) None))"
    by (simp add: plain_def request_def)
  from non_integer_id_is_rejected_before_storage [OF h, of NoFault two_students] h
  show ?thesis by blast
qed

text \<open>
  C4. The create operation checks three fields: the name is a string and is not empty,
  the email has email syntax, the age is an integer. When any of them fails, the
  handler answers once, with status 400 and a list of errors whose fields are exactly
  the fields that failed, all of them; it makes no other call, so nothing is inserted
  and the table is as it was.
\<close>

theorem create_lists_exactly_the_violated_fields:
  assumes "\<not> (isString L (body_name req) \<and> notEmpty L (body_name req) \<and>
              isEmail L (body_email req) \<and> isInt L (body_age req))"
  shows "\<exists>errors.
           trace (create_student L f req d) =
             [Respond \<lparr>status = 400, payload = Errors errors\<rparr>] \<and>
           param ` set errors =
             (if isString L (body_name req) \<and> notEmpty L (body_name req) then {} else {''name''}) \<union>
             (if isEmail L (body_email req) then {} else {''email''}) \<union>
             (if isInt L (body_age req) then {} else {''age''}) \<and>
           table (create_student L f req d) = d"
proof -
  let ?errors = "check_name L req @ check_email L req @ check_age L req"
  have fields: "param ` set ?errors =
      (if isString L (body_name req) \<and> notEmpty L (body_name req) then {} else {''name''}) \<union>
      (if isEmail L (body_email req) then {} else {''email''}) \<union>
      (if isInt L (body_age req) then {} else {''age''})"
    by (auto simp: check_name_def check_email_def check_age_def run_chain_def)
  have "?errors \<noteq> []"
    using assms by (auto simp: check_name_def check_email_def check_age_def run_chain_def)
  then have "create_student L f req d = bad_request ?errors d"
    by (simp add: create_student_def)
  with fields show ?thesis
    by (simp add: bad_request_def)
qed

theorem create_lists_exactly_the_violated_fields_witness:
  "\<exists>errors.
     trace (create_student plain NoFault create_invalid two_students) =
       [Respond \<lparr>status = 400, payload = Errors errors\<rparr>] \<and>
     param ` set errors = {''name'', ''email'', ''age''} \<and>
     table (create_student plain NoFault create_invalid two_students) = two_students"
proof -
  have h: "\<not> (isString plain (body_name create_invalid) \<and> notEmpty plain (body_name create_invalid) \<and>
              isEmail plain (body_email create_invalid) \<and> isInt plain (body_age create_invalid))"
    by (simp add: plain_def create_invalid_def request_def)
  have s: "(if isString plain (body_name create_invalid) \<and> notEmpty plain (body_name create_invalid)
            then {} else {''name''}) \<union>
           (if isEmail plain (body_email create_invalid) then {} else {''email''}) \<union>
           (if isInt plain (body_age create_invalid) then {} else {''age''}) =
           {''name'', ''email'', ''age''}"
    by (auto simp: plain_def create_invalid_def request_def)
  show ?thesis
    using create_lists_exactly_the_violated_fields [OF h, of NoFault two_students]
    unfolding s .
qed

subsection \<open>A select that finds nothing\<close>

text \<open>
  C2. When the id of the path is an integer and no row of the table matches it, the
  get-by-id operation (the store answering) responds with status 200 and the payload
  \<^verbatim>\<open>{message: "Student not found"}\<close>, not with an error status; it has taken one
  connection, issued the select and released the connection before.
\<close>

theorem get_student_not_found:
  assumes "isInt L (params_id req)"
    and "\<forall>r \<in> set (students d). \<not> matches L (params_id req) r"
  shows "trace (get_student L NoFault req d) =
           [GetConnection, Query (SelectById (params_id req)), Release,
            Respond \<lparr>status = 200, payload = Message ''Student not found''\<rparr>]"
proof -
  have "filter (matches L (params_id req)) (students d) = []"
    using assms(2) by (simp add: filter_empty_conv)
  then show ?thesis
    using assms(1)
    by (simp add: get_student_def check_id_accepts query_and_release_no_fault)
qed

theorem get_student_not_found_witness:
  "trace (get_student plain NoFault (request (Num 7) (Num 0) (Num 0) (Num 0) None) two_students) =
     [GetConnection, Query (SelectById (Num 7)), Release,
      Respond \<lparr>status = 200, payload = Message ''Student not found''\<rparr>]"
proof -
  have h1: "isInt plain (params_id (request (Num 7) (Num 0) (Num 0) (Num 0) None))"
    by (simp add: plain_def request_def)
  have h2: "\<forall>r \<in> set (students two_students).
              \<not> matches plain (params_id (request (Num 7) (Num 0) (Num 0) (Num 0) None)) r"
    by (simp add: plain_def request_def two_students_def ann_def bob_def matches_def)
  show ?thesis
    using get_student_not_found [OF h1 h2] by (simp add: request_def)
qed

subsection \<open>The keyword of /say\<close>

text \<open>
  C8. A request to \<^verbatim>\<open>/say\<close> with no \<^verbatim>\<open>keyword\<close> parameter calls the remote
  function with the keyword \<^verbatim>\<open>nothing\<close>: the first call of the handler is
  \<^verbatim>\<open>axios.get\<close> on the URL of the function with \<^verbatim>\<open>keyword=nothing\<close>, and the
  only other call is the response.
\<close>

theorem say_without_keyword_sends_nothing:
  assumes "query_keyword req = None"
  shows "keyword_or_nothing (query_keyword req) = ''nothing'' \<and>
         (\<exists>r. trace (say L f req d) =
            [AxiosGet ''https://shashankhfunction123.azurewebsites.net/api/Function?keyword=nothing'',
             Respond r])"
  using assms
  by (simp add: say_def Let_def keyword_or_nothing_def azureFunctionUrl_def split: option.splits)

theorem say_without_keyword_sends_nothing_witness:
  "trace (say plain NoFault (request (Num 0) (Num 0) (Num 0) (Num 0) None) two_students) =
     [AxiosGet ''https://shashankhfunction123.azurewebsites.net/api/Function?keyword=nothing'',
      Respond \<lparr>status = 200,
        payload = Data (Str ''https://shashankhfunction123.azurewebsites.net/api/Function?keyword=nothing'')\<rparr>]"
proof -
  have h: "query_keyword (request (Num 0) (Num 0) (Num 0) (Num 0) None) = None"
    by (simp add: request_def)
  from say_without_keyword_sends_nothing [OF h, of plain NoFault two_students]
  obtain r where
    t: "trace (say plain NoFault (request (Num 0) (Num 0) (Num 0) (Num 0) None) two_students) =
       [AxiosGet ''https://shashankhfunction123.azurewebsites.net/api/Function?keyword=nothing'',
        Respond r]"
    by blast
  have "last (trace (say plain NoFault (request (Num 0) (Num 0) (Num 0) (Num 0) None) two_students)) =
      Respond \<lparr>status = 200,
        payload = Data (Str ''https://shashankhfunction123.azurewebsites.net/api/Function?keyword=nothing'')\<rparr>"
    by (simp add: say_def Let_def keyword_or_nothing_def azureFunctionUrl_def plain_def request_def)
  with t show ?thesis by simp
qed

text \<open>
  C9. A request to \<^verbatim>\<open>/say\<close> whose \<^verbatim>\<open>keyword\<close> parameter is present and empty is
  handled exactly as one without the parameter: the same calls, the same response. The
  remote function is called with the keyword \<^verbatim>\<open>nothing\<close>, and the URL that is
  called is not the one that ends in the empty keyword.
\<close>

theorem say_with_empty_keyword_is_say_without:
  assumes "query_keyword req = Some []"
  shows "say L f req d = say L f (req\<lparr>query_keyword := None\<rparr>) d \<and>
         (\<exists>r. trace (say L f req d) = [AxiosGet (azureFunctionUrl ''nothing''), Respond r]) \<and>
         AxiosGet (azureFunctionUrl []) \<notin> set (trace (say L f req d))"
  using assms
  by (simp add: say_def Let_def keyword_or_nothing_def azureFunctionUrl_def split: option.splits)

theorem say_with_empty_keyword_is_say_without_witness:
  "say plain NoFault (request (Num 0) (Num 0) (Num 0) (Num 0) (Some [])) two_students =
   say plain NoFault (request (Num 0) (Num 0) (Num 0) (Num 0) None) two_students"
proof -
  have h: "query_keyword (request (Num 0) (Num 0) (Num 0) (Num 0) (Some [])) = Some []"
    by (simp add: request_def)
  have "(request (Num 0) (Num 0) (Num 0) (Num 0) (Some []))\<lparr>query_keyword := None\<rparr> =
        request (Num 0) (Num 0) (Num 0) (Num 0) None"
    by (simp add: request_def)
  with say_with_empty_keyword_is_say_without [OF h, of plain NoFault two_students]
  show ?thesis by simp
qed

subsection \<open>What an update touches\<close>

lemma update_student_table:
  "table (update_student L f req d) = d \<or>
   table (update_student L f req d) =
     d\<lparr>students :=
         map (\<lambda>r. if matches L (params_id req) r
                  then r\<lparr>email := sanitizeHtml L (body_email req)\<rparr> else r) (students d)\<rparr>"
  by (cases f)
     (simp_all add: update_student_def bad_request_def query_and_release_def Let_def)

text \<open>
  C6. The update-email operation changes at most the email of the rows that match the
  id: after it the table has the same rows in the same order under the same counter,
  every row has the id, name and age it had, and a row that does not match the id of
  the path is the row it was. This holds for every request (those with an integer id
  and a valid email included) and whatever the store does.
\<close>

theorem update_student_changes_only_matching_emails:
  "length (students (table (update_student L f req d))) = length (students d) \<and>
   auto_increment (table (update_student L f req d)) = auto_increment d \<and>
   (\<forall>k < length (students d).
      student_id (students (table (update_student L f req d)) ! k) = student_id (students d ! k) \<and>
      name (students (table (update_student L f req d)) ! k) = name (students d ! k) \<and>
      age (students (table (update_student L f req d)) ! k) = age (students d ! k) \<and>
      (\<not> matches L (params_id req) (students d ! k) \<longrightarrow>
         students (table (update_student L f req d)) ! k = students d ! k))"
proof -
  consider
      (same) "table (update_student L f req d) = d"
    | (updated) "table (update_student L f req d) =
        d\<lparr>students :=
            map (\<lambda>r. if matches L (params_id req) r
                     then r\<lparr>email := sanitizeHtml L (body_email req)\<rparr> else r) (students d)\<rparr>"
    using update_student_table [of L f req d] by blast
  then show ?thesis
  proof cases
    case same
    then show ?thesis by simp
  next
    case updated
    then show ?thesis by simp
  qed
qed

theorem update_student_changes_only_matching_emails_witness:
  "students (table (update_student plain NoFault update_bob two_students)) ! 0 = ann \<and>
   student_id (students (table (update_student plain NoFault update_bob two_students)) ! 1) = 2 \<and>
   name (students (table (update_student plain NoFault update_bob two_students)) ! 1) = Str ''Bob'' \<and>
   age (students (table (update_student plain NoFault update_bob two_students)) ! 1) = Num 41 \<and>
   email (students (table (update_student plain NoFault update_bob two_students)) ! 1) =
     Str ''bob@new.org''"
proof -
  have rows: "length (students two_students) = 2" "students two_students ! 0 = ann"
    "students two_students ! Suc 0 = bob"
    by (simp_all add: two_students_def)
  have other: "\<not> matches plain (params_id update_bob) ann"
    by (simp add: matches_def plain_def update_bob_def request_def ann_def)
  have frame: "\<forall>k < 2.
      student_id (students (table (update_student plain NoFault update_bob two_students)) ! k) =
        student_id (students two_students ! k) \<and>
      name (students (table (update_student plain NoFault update_bob two_students)) ! k) =
        name (students two_students ! k) \<and>
      age (students (table (update_student plain NoFault update_bob two_students)) ! k) =
        age (students two_students ! k) \<and>
      (\<not> matches plain (params_id update_bob) (students two_students ! k) \<longrightarrow>
         students (table (update_student plain NoFault update_bob two_students)) ! k =
           students two_students ! k)"
    using update_student_changes_only_matching_emails [of plain NoFault update_bob two_students]
    unfolding rows(1) by blast
  have first: "students (table (update_student plain NoFault update_bob two_students)) ! 0 = ann"
    using frame [rule_format, of 0] other by (simp add: rows)
  have second:
    "student_id (students (table (update_student plain NoFault update_bob two_students)) ! 1) = 2"
    "name (students (table (update_student plain NoFault update_bob two_students)) ! 1) = Str ''Bob''"
    "age (students (table (update_student plain NoFault update_bob two_students)) ! 1) = Num 41"
    using frame [rule_format, of 1] by (simp_all add: rows bob_def)
  have changed:
    "email (students (table (update_student plain NoFault update_bob two_students)) ! 1) =
       Str ''bob@new.org''"
    by (simp add: update_student_def check_id_def check_email_def run_chain_def
        query_and_release_def matches_def plain_def update_bob_def request_def two_students_def
        ann_def bob_def Let_def)
  from first second changed show ?thesis by simp
qed

subsection \<open>Create, then get\<close>

text \<open>The counter stays above the ids: every handler keeps \<open>wf_db\<close>, which the empty table has.\<close>

lemma wf_db_empty: "wf_db \<lparr>students = [], auto_increment = n\<rparr>"
  by (simp add: wf_db_def)

lemma execute_keeps_wf_db: "wf_db d \<Longrightarrow> wf_db (snd (execute L s d))"
proof (cases s)
  case (InsertStudent n e a)
  assume "wf_db d"
  then have "list_all (\<lambda>r. student_id r < auto_increment d + 1) (students d)"
    by (auto simp: wf_db_def list_all_iff)
  with InsertStudent show ?thesis
    by (simp add: wf_db_def)
next
  case (UpdateEmail e i)
  assume "wf_db d"
  with UpdateEmail show ?thesis
    by (auto simp: wf_db_def list_all_iff)
qed (auto simp: wf_db_def list_all_iff)

lemma query_and_release_keeps_wf_db:
  "wf_db d \<Longrightarrow> wf_db (snd (snd (query_and_release L f s d)))"
  using execute_keeps_wf_db [of d L s]
  by (cases f) (auto simp: query_and_release_def split: prod.splits)

lemma handlers_keep_wf_db:
  assumes "wf_db d"
  shows "wf_db (table (list_students L f req d))"
    and "wf_db (table (get_student L f req d))"
    and "wf_db (table (create_student L f req d))"
    and "wf_db (table (update_student L f req d))"
    and "wf_db (table (delete_student L f req d))"
proof -
  have q: "wf_db (snd (snd (query_and_release L f s d)))" for s
    using assms by (rule query_and_release_keeps_wf_db)
  show "wf_db (table (list_students L f req d))"
    using q [of SelectAll]
    by (auto simp: list_students_def split: prod.splits sum.splits)
  show "wf_db (table (get_student L f req d))"
    using q [of "SelectById (params_id req)"] assms
    by (auto simp: get_student_def bad_request_def Let_def split: prod.splits sum.splits)
  show "wf_db (table (create_student L f req d))"
    using q [of "InsertStudent (sanitizeHtml L (body_name req))
                   (sanitizeHtml L (body_email req)) (body_age req)"] assms
    by (auto simp: create_student_def bad_request_def Let_def
        split: prod.splits sum.splits js_integer.splits)
  show "wf_db (table (update_student L f req d))"
    using q [of "UpdateEmail (sanitizeHtml L (body_email req)) (params_id req)"] assms
    by (auto simp: update_student_def bad_request_def Let_def split: prod.splits sum.splits)
  show "wf_db (table (delete_student L f req d))"
    using q [of "DeleteById (params_id req)"] assms
    by (auto simp: delete_student_def bad_request_def Let_def split: prod.splits sum.splits)
qed

text \<open>
  A valid create with the store answering inserts its row, whatever the connector;
  what it responds depends on how the connector hands over the generated id.
\<close>

lemma create_student_valid_table:
  assumes "isString L (body_name req)" and "notEmpty L (body_name req)"
    and "isEmail L (body_email req)" and "isInt L (body_age req)"
  shows "table (create_student L NoFault req d) =
     \<lparr>students = students d @
        [\<lparr>student_id = auto_increment d, name = sanitizeHtml L (body_name req),
          email = sanitizeHtml L (body_email req), age = age_column L (body_age req)\<rparr>],
      auto_increment = auto_increment d + 1\<rparr>"
  using assms
  by (simp add: create_student_def check_name_def check_email_def check_age_def run_chain_def
      query_and_release_no_fault as_js_integer_def Let_def)

lemma create_student_valid_number:
  assumes "isString L (body_name req)" and "notEmpty L (body_name req)"
    and "isEmail L (body_email req)" and "isInt L (body_age req)"
    and "insertIdAsNumber L"
  shows "trace (create_student L NoFault req d) =
     [GetConnection,
      Query (InsertStudent (sanitizeHtml L (body_name req)) (sanitizeHtml L (body_email req))
               (body_age req)),
      Release,
      Respond \<lparr>status = 201,
        payload = Created ''Student added successfully'' (auto_increment d)\<rparr>]"
  using assms
  by (simp add: create_student_def check_name_def check_email_def check_age_def run_chain_def
      query_and_release_no_fault as_js_integer_def Let_def)

lemma create_student_valid_bigint:
  assumes "isString L (body_name req)" and "notEmpty L (body_name req)"
    and "isEmail L (body_email req)" and "isInt L (body_age req)"
    and "\<not> insertIdAsNumber L"
  shows "trace (create_student L NoFault req d) =
     [GetConnection,
      Query (InsertStudent (sanitizeHtml L (body_name req)) (sanitizeHtml L (body_email req))
               (body_age req)),
      Release,
      RespondThrows 201 cannot_serialize,
      Respond \<lparr>status = 500, payload = ErrorMsg cannot_serialize\<rparr>]"
  using assms
  by (simp add: create_student_def check_name_def check_email_def check_age_def run_chain_def
      query_and_release_no_fault as_js_integer_def server_error_def Let_def)

lemma select_fresh_id:
  assumes "wf_db d" and "sql_id L i = Some (auto_increment d)"
  shows "filter (matches L i) (students d @ [r\<lparr>student_id := auto_increment d\<rparr>]) =
         [r\<lparr>student_id := auto_increment d\<rparr>]"
proof -
  have "filter (matches L i) (students d) = []"
    using assms by (auto simp: wf_db_def list_all_iff matches_def filter_empty_conv)
  then show ?thesis
    using assms(2) by (simp add: matches_def)
qed

text \<open>
  With a connector that hands the generated id over as a Number, the round trip goes
  through: the create responds 201 with the id, and a get by that id returns the row
  with the sanitized name and email and the age as the integer column keeps it.
\<close>

lemma create_then_get_when_id_is_number:
  assumes "isString L (body_name req)" and "notEmpty L (body_name req)"
    and "isEmail L (body_email req)" and "isInt L (body_age req)"
    and "insertIdAsNumber L"
    and "wf_db d"
    and "isInt L (params_id req')" and "sql_id L (params_id req') = Some (auto_increment d)"
  shows "last (trace (create_student L NoFault req d)) =
           Respond \<lparr>status = 201,
             payload = Created ''Student added successfully'' (auto_increment d)\<rparr>"
    and "last (trace (get_student L NoFault req' (table (create_student L NoFault req d)))) =
           Respond \<lparr>status = 200,
             payload = Row \<lparr>student_id = auto_increment d,
                            name = sanitizeHtml L (body_name req),
                            email = sanitizeHtml L (body_email req),
                            age = age_column L (body_age req)\<rparr>\<rparr>"
proof -
  let ?row = "\<lparr>student_id = auto_increment d, name = sanitizeHtml L (body_name req),
                email = sanitizeHtml L (body_email req), age = age_column L (body_age req)\<rparr>"
  show "last (trace (create_student L NoFault req d)) =
          Respond \<lparr>status = 201,
            payload = Created ''Student added successfully'' (auto_increment d)\<rparr>"
    using assms(1-5) by (simp add: create_student_valid_number)
  have "filter (matches L (params_id req')) (students d @ [?row]) = [?row]"
    using select_fresh_id [of d L "params_id req'" ?row] assms(6,8) by simp
  then show "last (trace (get_student L NoFault req' (table (create_student L NoFault req d)))) =
      Respond \<lparr>status = 200, payload = Row ?row\<rparr>"
    using assms(1-4,7)
    by (simp add: create_student_valid_table get_student_def check_id_accepts
        query_and_release_no_fault)
qed

text \<open>
  C5 says that for every valid input, creating a student and then getting it by the
  returned id yields the record with the sanitized email and the age of the input.
  With a connector that hands the generated id over as a BigInt (the mariadb 3.x
  connector, as the pool is created here), a valid create returns no id at all: the
  row is inserted and the connection released, then
  \<^verbatim>\<open>res.status(201).json({ ..., studentId: result.insertId })\<close> throws inside the
  \<^verbatim>\<open>try\<close>, and the \<^verbatim>\<open>catch\<close> answers with status 500 and the message of the
  TypeError. For the valid request \<open>create_cy\<close> on the table of two students: the
  calls are getConnection, the insert, release, the response that throws, the 500;
  the table holds the new row under id 3 all the same.
\<close>

theorem create_student_answers_500_when_insert_id_is_bigint:
  "trace (create_student plain_bigint NoFault create_cy two_students) =
     [GetConnection,
      Query (InsertStudent (Str ''Cy'') (Str ''cy@example.com'') (Num 25)),
      Release,
      RespondThrows 201 ''Do not know how to serialize a BigInt'',
      Respond \<lparr>status = 500, payload = ErrorMsg ''Do not know how to serialize a BigInt''\<rparr>] \<and>
   students (table (create_student plain_bigint NoFault create_cy two_students)) =
     [ann, bob,
      \<lparr>student_id = 3, name = Str ''Cy'', email = Str ''cy@example.com'', age = Num 25\<rparr>]"
proof -
  have valid: "isString plain_bigint (body_name create_cy)"
    "notEmpty plain_bigint (body_name create_cy)"
    "isEmail plain_bigint (body_email create_cy)" "isInt plain_bigint (body_age create_cy)"
    by (simp_all add: plain_bigint_def plain_def create_cy_def request_def)
  have bigint: "\<not> insertIdAsNumber plain_bigint"
    by (simp add: plain_bigint_def)
  have bound: "sanitizeHtml plain_bigint (body_name create_cy) = Str ''Cy''"
    "sanitizeHtml plain_bigint (body_email create_cy) = Str ''cy@example.com''"
    "body_age create_cy = Num 25" "age_column plain_bigint (Num 25) = Num 25"
    by (simp_all add: plain_bigint_def plain_def create_cy_def request_def)
  show ?thesis
    by (simp add: create_student_valid_bigint [OF valid bigint]
        create_student_valid_table [OF valid] bound cannot_serialize_def two_students_def)
qed

text \<open>The same request through a connector that hands the id over as a Number.\<close>

lemma create_cy_then_get:
  "last (trace (create_student plain NoFault create_cy two_students)) =
     Respond \<lparr>status = 201, payload = Created ''Student added successfully'' 3\<rparr> \<and>
   last (trace (get_student plain NoFault (request (Num 3) (Num 0) (Num 0) (Num 0) None)
                  (table (create_student plain NoFault create_cy two_students)))) =
     Respond \<lparr>status = 200,
       payload = Row \<lparr>student_id = 3, name = Str ''Cy'', email = Str ''cy@example.com'',
                      age = Num 25\<rparr>\<rparr>"
proof -
  have valid: "isString plain (body_name create_cy)" "notEmpty plain (body_name create_cy)"
    "isEmail plain (body_email create_cy)" "isInt plain (body_age create_cy)"
    "insertIdAsNumber plain"
    by (simp_all add: plain_def create_cy_def request_def)
  have wf: "wf_db two_students"
    by (simp add: wf_db_def two_students_def ann_def bob_def)
  have get: "isInt plain (params_id (request (Num 3) (Num 0) (Num 0) (Num 0) None))"
    "sql_id plain (params_id (request (Num 3) (Num 0) (Num 0) (Num 0) None)) =
       Some (auto_increment two_students)"
    by (simp_all add: plain_def request_def two_students_def)
  have bound: "sanitizeHtml plain (body_name create_cy) = Str ''Cy''"
    "sanitizeHtml plain (body_email create_cy) = Str ''cy@example.com''"
    "age_column plain (body_age create_cy) = Num 25" "auto_increment two_students = 3"
    by (simp_all add: plain_def create_cy_def request_def two_students_def)
  show ?thesis
    using create_then_get_when_id_is_number [OF valid wf get]
    by (simp add: bound)
qed

end
